theory Spec2Isabelle
  imports Complex_Main
begin

section \<open>Numbers, errors and the built-in operations used by the script\<close>

text \<open>
  The script \<^verbatim>\<open>misc/scripts/gen_time_quanta.py\<close> computes with Python numbers.
  \<^verbatim>\<open>levels\<close> is a Python \<^verbatim>\<open>int\<close> (it is the argument of \<^verbatim>\<open>range\<close>) and is an
  \<^typ>\<open>int\<close> here. The quantum, the growth rate and the target are Python numbers
  (\<^verbatim>\<open>int\<close> or \<^verbatim>\<open>float\<close>); they are embedded as \<^typ>\<open>real\<close>, with exact arithmetic:
  the literal \<^verbatim>\<open>1.15\<close> is \<open>23 / 20\<close>. The rounding error and the finite range of
  binary64 (an \<^verbatim>\<open>OverflowError\<close> on huge values) are outside this embedding.
  The two \<^verbatim>\<open>print\<close> calls of \<^verbatim>\<open>generate_exponential_quanta\<close> only report the rate
  and do not influence the returned list; they are left out. So is the entry point
  (lines 38 to 47), which reads two integers and calls the two functions with the
  growth rate 1.1 and no target.
\<close>

datatype py_error = ZeroDivisionError | TypeError

text \<open>
  The value of \<^verbatim>\<open>x ** y\<close> on floats is a float, or a complex number when a negative
  base meets a fractional exponent. The script never inspects a complex value: it only
  multiplies it and passes it to \<^verbatim>\<open>round\<close>, which rejects it.
\<close>

datatype py_number = PyReal real | PyComplex

text \<open>\<^verbatim>\<open>a / b\<close>: true division raises on a zero divisor.\<close>

definition py_truediv :: "real \<Rightarrow> real \<Rightarrow> py_error + real" where
  "py_truediv a b = (if b = 0 then Inl ZeroDivisionError else Inr (a / b))"

text \<open>
  \<^verbatim>\<open>x ** y\<close> with a float exponent: \<^verbatim>\<open>x ** 0\<close> is 1; zero to a negative power
  raises; a negative base gives a real only for an integral exponent.
\<close>

definition py_pow :: "real \<Rightarrow> real \<Rightarrow> py_error + py_number" where
  "py_pow x y =
     (if y = 0 then Inr (PyReal 1)
      else if x = 0 then (if y < 0 then Inl ZeroDivisionError else Inr (PyReal 0))
      else if x < 0 then
        (if y = of_int \<lfloor>y\<rfloor> then Inr (PyReal (power_int x \<lfloor>y\<rfloor>)) else Inr PyComplex)
      else Inr (PyReal (x powr y)))"

text \<open>
  \<^verbatim>\<open>round(x)\<close> with one argument, as Python 3 defines it: the nearest integer, a tie
  going to the even neighbour.
\<close>

definition py_round :: "real \<Rightarrow> int" where
  "py_round x =
     (let f = \<lfloor>x\<rfloor>; r = x - of_int f
      in if r < 1 / 2 then f
         else if 1 / 2 < r then f + 1
         else if even f then f else f + 1)"

text \<open>\<^verbatim>\<open>range(n)\<close>: the indices \<open>0, \<dots>, n - 1\<close>, none when \<open>n \<le> 0\<close>.\<close>

definition py_range :: "int \<Rightarrow> nat list" where
  "py_range n = [0..<nat n]"

section \<open>generate_exponential_quanta\<close>

text \<open>
  Lines 5 to 14: the growth rate the expansion uses. A target takes the first branch,
  whatever \<^verbatim>\<open>growth_rate\<close> holds; without a target a missing rate becomes 1.15.
  The operands of line 8 are evaluated left to right.
\<close>

definition effective_growth_rate ::
  "int \<Rightarrow> real \<Rightarrow> real option \<Rightarrow> real option \<Rightarrow> py_error + py_number" where
  "effective_growth_rate levels start_ms growth_rate target_max_ms =
     (case target_max_ms of
        Some target \<Rightarrow>
          (case py_truediv target start_ms of
             Inl err \<Rightarrow> Inl err
           | Inr ratio \<Rightarrow>
               (case py_truediv 1 (of_int (levels - 1)) of
                  Inl err \<Rightarrow> Inl err
                | Inr expo \<Rightarrow> py_pow ratio expo))
      | None \<Rightarrow>
          (case growth_rate of
             None \<Rightarrow> Inr (PyReal (23 / 20))
           | Some rate \<Rightarrow> Inr (PyReal rate)))"

text \<open>Line 18: the value of level \<open>i\<close> before rounding.\<close>

definition quantum_val :: "real \<Rightarrow> real \<Rightarrow> nat \<Rightarrow> real" where
  "quantum_val start_ms rate i = start_ms * rate ^ i"

text \<open>
  Lines 17 to 19: the loop over \<^verbatim>\<open>range(levels)\<close>, appending one rounded value per
  index. A complex rate makes the first \<^verbatim>\<open>round\<close> raise.
\<close>

fun quanta_loop :: "real \<Rightarrow> py_number \<Rightarrow> nat list \<Rightarrow> int list \<Rightarrow> py_error + int list" where
  "quanta_loop start_ms rate [] quanta = Inr quanta"
| "quanta_loop start_ms PyComplex (i # rest) quanta = Inl TypeError"
| "quanta_loop start_ms (PyReal r) (i # rest) quanta =
     quanta_loop start_ms (PyReal r) rest (quanta @ [py_round (quantum_val start_ms r i)])"

definition generate_exponential_quanta ::
  "int \<Rightarrow> real \<Rightarrow> real option \<Rightarrow> real option \<Rightarrow> py_error + int list" where
  "generate_exponential_quanta levels start_ms growth_rate target_max_ms =
     (case effective_growth_rate levels start_ms growth_rate target_max_ms of
        Inl err \<Rightarrow> Inl err
      | Inr rate \<Rightarrow> quanta_loop start_ms rate (py_range levels) [])"

section \<open>print_cpp_array\<close>

text \<open>
  The renderer prints with \<^verbatim>\<open>print\<close>, one line per call; its output is modelled as the
  list of the lines printed, in order. The entries of \<^verbatim>\<open>quanta\<close> are Python integers,
  as \<^verbatim>\<open>round\<close> returns them.
\<close>

text \<open>\<^verbatim>\<open>str(n)\<close> on an integer: the decimal digits, after a minus sign when negative.\<close>

definition digit_char :: "nat \<Rightarrow> char" where
  "digit_char d = ''0123456789'' ! d"

fun str_nat :: "nat \<Rightarrow> string" where
  "str_nat n = (if n < 10 then [digit_char n] else str_nat (n div 10) @ [digit_char (n mod 10)])"

definition str_int :: "int \<Rightarrow> string" where
  "str_int x = (if x < 0 then CHR ''-'' # str_nat (nat (- x)) else str_nat (nat x))"

text \<open>\<^verbatim>\<open>sep.join(xs)\<close>: the strings with the separator between neighbours.\<close>

fun join :: "string \<Rightarrow> string list \<Rightarrow> string" where
  "join sep [] = []"
| "join sep [x] = x"
| "join sep (x # y # ys) = x @ sep @ join sep (y # ys)"

text \<open>Line 26.\<close>

definition row_size :: nat where
  "row_size = 8"

text \<open>
  Lines 27 to 34: the loop over \<^verbatim>\<open>range(0, len(quanta), row_size)\<close>. The slice
  \<^verbatim>\<open>quanta[i:i+row_size]\<close> is \<open>take row_size (drop i quanta)\<close>; a row is followed by a
  comma exactly when entries remain after it.
\<close>

function print_rows :: "nat \<Rightarrow> int list \<Rightarrow> string list" where
  "print_rows i quanta =
     (if i < length quanta then
        (let row = take row_size (drop i quanta);
             row_str = join '', '' (map str_int row)
         in (if i + row_size < length quanta then ''    '' @ row_str @ '',''
             else ''    '' @ row_str)
            # print_rows (i + row_size) quanta)
      else [])"
  by pat_completeness auto
termination
  by (relation "measure (\<lambda>(i, quanta). length quanta - i)") (auto simp: row_size_def)

declare print_rows.simps [simp del]
declare str_nat.simps [simp del]

text \<open>Lines 24 to 36: the declaration line, the rows, the closing line.\<close>

definition print_cpp_array :: "int list \<Rightarrow> string list" where
  "print_cpp_array quanta =
     (''constexpr int TIME_SLICE_QUANTA['' @ str_int (int (length quanta)) @ ''] = {'')
       # print_rows 0 quanta @ [''};'']"

subsection \<open>Reading the numbers of a printed line\<close>

text \<open>
  To say which numbers a printed line shows, the line is read back: every maximal run
  of digits and minus signs is one number, and everything else separates numbers. These
  functions are not part of the script; they only state what its text contains.
\<close>

definition is_number_char :: "char \<Rightarrow> bool" where
  "is_number_char c = (c \<in> set ''-0123456789'')"

fun scan_numbers :: "string \<Rightarrow> string \<Rightarrow> string list" where
  "scan_numbers cur [] = (if cur = [] then [] else [cur])"
| "scan_numbers cur (c # cs) =
     (if is_number_char c then scan_numbers (cur @ [c]) cs
      else if cur = [] then scan_numbers [] cs
      else cur # scan_numbers [] cs)"

definition digit_val :: "char \<Rightarrow> nat" where
  "digit_val c = of_char c - 48"

definition nat_of_str :: "string \<Rightarrow> nat" where
  "nat_of_str s = foldl (\<lambda>a c. 10 * a + digit_val c) 0 s"

definition int_of_str :: "string \<Rightarrow> int" where
  "int_of_str s =
     (if s \<noteq> [] \<and> hd s = CHR ''-'' then - int (nat_of_str (tl s)) else int (nat_of_str s))"

definition numbers_in :: "string \<Rightarrow> int list" where
  "numbers_in line = map int_of_str (scan_numbers [] line)"

section \<open>Properties of the generator\<close>

lemma quanta_loop_real:
  "quanta_loop start_ms (PyReal r) idxs quanta =
     Inr (quanta @ map (\<lambda>i. py_round (quantum_val start_ms r i)) idxs)"
  by (induction idxs arbitrary: quanta) simp_all

lemma effective_growth_rate_no_target:
  "effective_growth_rate levels start_ms growth_rate None =
     Inr (PyReal (case growth_rate of None \<Rightarrow> 23 / 20 | Some rate \<Rightarrow> rate))"
  by (simp add: effective_growth_rate_def split: option.split)

lemma generate_no_target:
  "generate_exponential_quanta levels start_ms growth_rate None =
     Inr (map (\<lambda>i. py_round
                 (quantum_val start_ms (case growth_rate of None \<Rightarrow> 23 / 20 | Some rate \<Rightarrow> rate) i))
            (py_range levels))"
  by (simp add: generate_exponential_quanta_def effective_growth_rate_no_target quanta_loop_real)

text \<open>
  C10. With no target and a level count of zero or less, the call raises nothing and
  returns the empty list, for every start quantum and every growth rate.
\<close>

theorem generate_nonpositive_levels:
  "levels \<le> 0 \<Longrightarrow> generate_exponential_quanta levels start_ms growth_rate None = Inr []"
  by (simp add: generate_no_target py_range_def)

theorem generate_nonpositive_levels_witness:
  "(-2::int) \<le> 0 \<and> generate_exponential_quanta (-2) 10 (Some (11 / 10)) None = Inr []"
  using generate_nonpositive_levels [of "-2" 10 "Some (11 / 10)"] by simp

lemma effective_growth_rate_target:
  "effective_growth_rate levels start_ms growth_rate (Some target) =
     effective_growth_rate levels start_ms None (Some target)"
  by (simp add: effective_growth_rate_def)

lemma effective_growth_rate_one_level:
  "effective_growth_rate 1 start_ms growth_rate (Some target) = Inl ZeroDivisionError"
  by (simp add: effective_growth_rate_def py_truediv_def)

lemma effective_growth_rate_zero_start:
  "effective_growth_rate levels 0 growth_rate (Some target) = Inl ZeroDivisionError"
  by (simp add: effective_growth_rate_def py_truediv_def)

subsection \<open>Validation\<close>

text \<open>
  C1, as stated, fails: a level count of zero violates \<open>levels \<ge> 1\<close>, and the call
  returns the empty list instead of raising.
\<close>

theorem generate_invalid_levels_counterexample:
  "(0::int) < 1 \<and> generate_exponential_quanta 0 10 None None = Inr []"
  by (simp add: generate_no_target py_range_def)

text \<open>
  C1, amended. The function checks nothing and knows no \<^verbatim>\<open>InvalidParameter\<close>. Without a
  target a level count below one gives the empty list, and a negative start quantum
  with a negative rate is expanded like any other pair: two levels from \<open>-5\<close> with
  rate \<open>-2\<close> give \<open>-5, 10\<close>. With a target, one level (and likewise a zero start
  quantum) raises \<^verbatim>\<open>ZeroDivisionError\<close> while the rate is derived, which is before the
  loop appends a value.
\<close>

theorem generate_no_validation:
  "(levels < 1 \<longrightarrow> generate_exponential_quanta levels start_ms growth_rate None = Inr [])
   \<and> generate_exponential_quanta 2 (-5) (Some (-2)) None = Inr [-5, 10]
   \<and> effective_growth_rate 1 start_ms growth_rate (Some target) = Inl ZeroDivisionError
   \<and> generate_exponential_quanta 1 start_ms growth_rate (Some target) = Inl ZeroDivisionError
   \<and> generate_exponential_quanta levels 0 growth_rate (Some target) = Inl ZeroDivisionError"
proof -
  have "levels < 1 \<longrightarrow> generate_exponential_quanta levels start_ms growth_rate None = Inr []"
    by (simp add: generate_no_target py_range_def)
  moreover have "generate_exponential_quanta 2 (-5) (Some (-2)) None = Inr [-5, 10]"
    by (simp add: generate_no_target py_range_def quantum_val_def py_round_def upt_rec)
  moreover have "generate_exponential_quanta 1 start_ms growth_rate (Some target) = Inl ZeroDivisionError"
    by (simp add: generate_exponential_quanta_def effective_growth_rate_one_level)
  moreover have "generate_exponential_quanta levels 0 growth_rate (Some target) = Inl ZeroDivisionError"
    by (simp add: generate_exponential_quanta_def effective_growth_rate_zero_start)
  ultimately show ?thesis
    using effective_growth_rate_one_level [of start_ms growth_rate target]
    by blast
qed

theorem generate_no_validation_witness:
  "(-1::int) < 1
   \<and> generate_exponential_quanta (-1) (-5) (Some (-2)) None = Inr []
   \<and> generate_exponential_quanta 1 (-5) (Some (-2)) (Some 20) = Inl ZeroDivisionError
   \<and> generate_exponential_quanta (-1) 0 (Some (-2)) (Some 20) = Inl ZeroDivisionError"
  using generate_no_validation [of "-1" "-5" "Some (-2)" 20]
  by simp

subsection \<open>Rate resolution\<close>

text \<open>
  C3. The rate is resolved in priority order. A target decides alone: the rate and the
  result are those of the same call without \<^verbatim>\<open>growth_rate\<close>. Without a target a supplied
  rate is the rate used, and without either the call is the one with the rate 1.15
  supplied.
\<close>

theorem rate_resolution_priority:
  "generate_exponential_quanta levels start_ms growth_rate (Some target) =
     generate_exponential_quanta levels start_ms None (Some target)
   \<and> effective_growth_rate levels start_ms growth_rate (Some target) =
       effective_growth_rate levels start_ms None (Some target)
   \<and> effective_growth_rate levels start_ms (Some rate) None = Inr (PyReal rate)
   \<and> effective_growth_rate levels start_ms None None =
       effective_growth_rate levels start_ms (Some (23 / 20)) None
   \<and> generate_exponential_quanta levels start_ms None None =
       generate_exponential_quanta levels start_ms (Some (23 / 20)) None"
proof -
  have "generate_exponential_quanta levels start_ms growth_rate (Some target) =
          generate_exponential_quanta levels start_ms None (Some target)"
    by (simp add: generate_exponential_quanta_def
        effective_growth_rate_target [of levels start_ms growth_rate target])
  then show ?thesis
    using effective_growth_rate_target [of levels start_ms growth_rate target]
    by (simp add: effective_growth_rate_no_target generate_no_target)
qed

subsection \<open>The default curve\<close>

text \<open>
  C4. With three levels, a start quantum of 10 and neither rate nor target, the rate is
  1.15, the values before rounding are 10, 11.5 and 13.225, and the returned list is
  10, 12, 13.
\<close>

theorem generate_default_example:
  "effective_growth_rate 3 10 None None = Inr (PyReal (23 / 20))
   \<and> map (quantum_val 10 (23 / 20)) (py_range 3) = [10, 23 / 2, 529 / 40]
   \<and> generate_exponential_quanta 3 10 None None = Inr [10, 12, 13]"
  by (simp add: generate_no_target effective_growth_rate_no_target py_range_def
      quantum_val_def py_round_def upt_rec)

section \<open>Properties of the renderer\<close>

lemma length_print_rows:
  "length (print_rows i quanta) = (length quanta - i + 7) div 8"
proof (induction i quanta rule: print_rows.induct)
  case (1 i quanta)
  show ?case
  proof (cases "i < length quanta")
    case True
    from 1 [OF True refl refl]
    have "length (print_rows (i + 8) quanta) = (length quanta - (i + 8) + 7) div 8"
      by (simp add: row_size_def)
    moreover have "Suc ((length quanta - (i + 8) + 7) div 8) = (length quanta - i + 7) div 8"
    proof (cases "i + 8 \<le> length quanta")
      case True
      then have "length quanta - i + 7 = (length quanta - (i + 8) + 7) + 8"
        by simp
      then show ?thesis
        by (simp only: div_add_self2)
    next
      case False
      with \<open>i < length quanta\<close> have "length quanta - (i + 8) = 0"
        and "8 \<le> length quanta - i + 7" and "length quanta - i + 7 < 16"
        by simp_all
      then have "(length quanta - i + 7) div 8 = 1"
        by (simp add: div_eq_dividend_iff Euclidean_Rings.div_nat_eqI)
      with \<open>length quanta - (i + 8) = 0\<close> show ?thesis
        by simp
    qed
    ultimately show ?thesis
      using True by (subst print_rows.simps) (simp add: Let_def row_size_def)
  next
    case False
    then show ?thesis
      by (subst print_rows.simps) simp
  qed
qed

lemma nth_print_rows:
  "k < length (print_rows i quanta) \<Longrightarrow>
     print_rows i quanta ! k =
       ''    '' @ join '', '' (map str_int (take 8 (drop (i + 8 * k) quanta)))
         @ (if i + 8 * k + 8 < length quanta then '','' else [])"
proof (induction i quanta arbitrary: k rule: print_rows.induct)
  case (1 i quanta)
  show ?case
  proof (cases "i < length quanta")
    case True
    note step = print_rows.simps [of i quanta]
    show ?thesis
    proof (cases k)
      case 0
      with True show ?thesis
        by (subst step) (simp add: Let_def row_size_def)
    next
      case (Suc k')
      with 1(2) True have "k' < length (print_rows (i + row_size) quanta)"
        by (subst (asm) step) (simp add: Let_def)
      with 1(1) [OF True refl refl, of k'] Suc True show ?thesis
        by (subst step) (simp add: Let_def row_size_def add.assoc add.commute)
    qed
  next
    case False
    with 1(2) show ?thesis
      by (subst (asm) print_rows.simps) simp
  qed
qed


lemma digit_char_not_comma: "d < 10 \<Longrightarrow> digit_char d \<noteq> CHR '',''"
proof -
  assume "d < 10"
  then have "d \<in> {0, 1, 2, 3, 4, 5, 6, 7, 8, 9}" by auto
  then show ?thesis by (auto simp: digit_char_def)
qed

lemma str_nat_nonempty: "str_nat n \<noteq> []"
  by (subst str_nat.simps) simp

lemma last_str_nat: "last (str_nat n) = digit_char (n mod 10)"
  by (subst str_nat.simps) simp

lemma str_int_nonempty: "str_int x \<noteq> []"
  by (simp add: str_int_def str_nat_nonempty)

lemma last_str_int_not_comma: "last (str_int x) \<noteq> CHR '',''"
  by (simp add: str_int_def str_nat_nonempty last_str_nat digit_char_not_comma)

lemma join_nonempty:
  "xs \<noteq> [] \<Longrightarrow> last xs \<noteq> [] \<Longrightarrow> join sep xs \<noteq> []"
  by (induction sep xs rule: join.induct) auto

lemma last_join:
  "xs \<noteq> [] \<Longrightarrow> last xs \<noteq> [] \<Longrightarrow> last (join sep xs) = last (last xs)"
proof (induction sep xs rule: join.induct)
  case (3 sep x y ys)
  then have "join sep (y # ys) \<noteq> []"
    using join_nonempty [of "y # ys" sep] by simp
  with 3 show ?case
    by simp
qed simp_all

lemma digit_cases: "d < 10 \<Longrightarrow> d \<in> {0, 1, 2, 3, 4, 5, 6, 7, 8, 9::nat}"
  by auto

lemma digit_val_digit_char: "d < 10 \<Longrightarrow> digit_val (digit_char d) = d"
  using digit_cases [of d] by (auto simp: digit_char_def digit_val_def)

lemma digit_char_number: "d < 10 \<Longrightarrow> is_number_char (digit_char d)"
  using digit_cases [of d] by (auto simp: digit_char_def is_number_char_def)

lemma digit_char_not_minus: "d < 10 \<Longrightarrow> digit_char d \<noteq> CHR ''-''"
  using digit_cases [of d] by (auto simp: digit_char_def)

lemma str_nat_number_chars: "\<forall>c\<in>set (str_nat n). is_number_char c"
proof (induction n rule: str_nat.induct)
  case (1 n)
  show ?case
  proof (cases "n < 10")
    case True
    then show ?thesis
      by (subst str_nat.simps) (simp add: digit_char_number)
  next
    case False
    with 1 show ?thesis
      by (subst str_nat.simps) (simp add: digit_char_number)
  qed
qed

lemma hd_str_nat_not_minus: "hd (str_nat n) \<noteq> CHR ''-''"
proof (induction n rule: str_nat.induct)
  case (1 n)
  show ?case
  proof (cases "n < 10")
    case True
    then show ?thesis
      by (subst str_nat.simps) (simp add: digit_char_not_minus)
  next
    case False
    with 1 show ?thesis
      by (subst str_nat.simps) (simp add: str_nat_nonempty)
  qed
qed

lemma nat_of_str_snoc: "nat_of_str (s @ [c]) = 10 * nat_of_str s + digit_val c"
  by (simp add: nat_of_str_def)

lemma nat_of_str_str_nat: "nat_of_str (str_nat n) = n"
proof (induction n rule: str_nat.induct)
  case (1 n)
  show ?case
  proof (cases "n < 10")
    case True
    then show ?thesis
      by (subst str_nat.simps) (simp add: nat_of_str_def digit_val_digit_char)
  next
    case False
    with 1 show ?thesis
      by (subst str_nat.simps) (simp add: nat_of_str_snoc digit_val_digit_char)
  qed
qed

lemma int_of_str_str_int: "int_of_str (str_int x) = x"
  by (simp add: int_of_str_def str_int_def nat_of_str_str_nat hd_str_nat_not_minus str_nat_nonempty)

lemma minus_number_char: "is_number_char CHR ''-''"
  by (simp add: is_number_char_def)

lemma str_int_number_chars: "\<forall>c\<in>set (str_int x). is_number_char c"
  by (simp add: str_int_def str_nat_number_chars minus_number_char)

lemma separators_not_number:
  "\<not> is_number_char CHR '',''" "\<not> is_number_char CHR '' ''"
  by (simp_all add: is_number_char_def)

lemma scan_numbers_token:
  "\<forall>c\<in>set s. is_number_char c \<Longrightarrow> scan_numbers cur (s @ rest) = scan_numbers (cur @ s) rest"
  by (induction s arbitrary: cur) simp_all

lemma scan_numbers_last:
  assumes "x \<noteq> []" and "\<forall>c\<in>set x. is_number_char c" and "tail = [] \<or> tail = '',''"
  shows "scan_numbers [] (x @ tail) = [x]"
proof -
  from assms(2) have "scan_numbers [] (x @ tail) = scan_numbers x tail"
    using scan_numbers_token [of x "[]" tail] by simp
  also from assms(1,3) have "\<dots> = [x]"
    by (auto simp: separators_not_number)
  finally show ?thesis .
qed

lemma scan_numbers_next:
  assumes "x \<noteq> []" and "\<forall>c\<in>set x. is_number_char c"
  shows "scan_numbers [] (x @ '', '' @ rest) = x # scan_numbers [] rest"
proof -
  from assms(2) have "scan_numbers [] (x @ '', '' @ rest) = scan_numbers x ('', '' @ rest)"
    using scan_numbers_token [of x "[]" "'', '' @ rest"] by simp
  also from assms(1) have "\<dots> = x # scan_numbers [] rest"
    by (simp add: separators_not_number)
  finally show ?thesis .
qed

lemma scan_numbers_join:
  assumes "\<forall>s\<in>set strs. s \<noteq> [] \<and> (\<forall>c\<in>set s. is_number_char c)"
    and "tail = [] \<or> tail = '',''"
  shows "scan_numbers [] (join '', '' strs @ tail) = strs"
  using assms(1)
proof (induction strs)
  case Nil
  from assms(2) show ?case
    by (auto simp: separators_not_number)
next
  case (Cons x rest)
  then have x: "x \<noteq> []" "\<forall>c\<in>set x. is_number_char c"
    by simp_all
  show ?case
  proof (cases rest)
    case Nil
    with x assms(2) show ?thesis
      using scan_numbers_last [of x tail] by simp
  next
    case (Cons y ys)
    have "scan_numbers [] (join '', '' (x # y # ys) @ tail) =
        scan_numbers [] (x @ '', '' @ (join '', '' (y # ys) @ tail))"
      by simp
    also from x have "\<dots> = x # scan_numbers [] (join '', '' (y # ys) @ tail)"
      by (rule scan_numbers_next)
    also from Cons.IH Cons.prems Cons have "\<dots> = x # y # ys"
      by simp
    finally show ?thesis
      using Cons by simp
  qed
qed

lemma scan_numbers_indent:
  "scan_numbers [] (''    '' @ rest) = scan_numbers [] rest"
  by (simp add: separators_not_number)

lemma numbers_in_row:
  assumes "tail = [] \<or> tail = '',''"
  shows "numbers_in (''    '' @ join '', '' (map str_int row) @ tail) = row"
proof -
  have "\<forall>s\<in>set (map str_int row). s \<noteq> [] \<and> (\<forall>c\<in>set s. is_number_char c)"
    using str_int_nonempty str_int_number_chars by auto
  with assms have "scan_numbers [] (join '', '' (map str_int row) @ tail) = map str_int row"
    by (rule scan_numbers_join [rotated])
  then have "scan_numbers [] (''    '' @ join '', '' (map str_int row) @ tail) = map str_int row"
    by (simp only: scan_numbers_indent)
  then show ?thesis
    by (simp add: numbers_in_def int_of_str_str_int map_idI)
qed

lemma print_rows_step:
  assumes "i < length quanta"
  shows "print_rows i quanta =
    (''    '' @ join '', '' (map str_int (take 8 (drop i quanta)))
       @ (if i + 8 < length quanta then '','' else []))
    # print_rows (i + 8) quanta"
  using assms by (subst print_rows.simps) (simp add: Let_def row_size_def)

lemma print_rows_done:
  assumes "\<not> i < length quanta"
  shows "print_rows i quanta = []"
  using assms by (subst print_rows.simps) simp

lemma numbers_in_print_rows:
  "concat (map numbers_in (print_rows i quanta)) = drop i quanta"
proof (induction i quanta rule: print_rows.induct)
  case (1 i quanta)
  show ?case
  proof (cases "i < length quanta")
    case True
    from 1 [OF True refl refl]
    have rest: "concat (map numbers_in (print_rows (i + 8) quanta)) = drop (i + 8) quanta"
      by (simp add: row_size_def)
    have row: "numbers_in (''    '' @ join '', '' (map str_int (take 8 (drop i quanta)))
        @ (if i + 8 < length quanta then '','' else [])) = take 8 (drop i quanta)"
      by (rule numbers_in_row) simp
    have "take 8 (drop i quanta) @ drop (i + 8) quanta = drop i quanta"
      using append_take_drop_id [of 8 "drop i quanta"] by (simp add: add.commute)
    with rest row show ?thesis
      by (simp only: print_rows_step [OF True] list.map concat.simps)
  next
    case False
    then show ?thesis
      by (simp add: print_rows_done)
  qed
qed

lemma row_index: "(k + 1 < (n + 7) div 8) = (8 * k + 8 < (n::nat))"
  by (simp add: less_eq_div_iff_mult_less_eq Suc_le_eq [symmetric] mult.commute del: Suc_le_eq)

lemma row_exists: "(k < (n + 7) div 8) = (8 * k < (n::nat))"
  by (simp add: less_eq_div_iff_mult_less_eq Suc_le_eq [symmetric] mult.commute del: Suc_le_eq)

lemma print_cpp_array_length:
  "length (print_cpp_array quanta) = (length quanta + 7) div 8 + 2"
  by (simp add: print_cpp_array_def length_print_rows)

lemma print_cpp_array_header:
  "print_cpp_array quanta ! 0 =
     ''constexpr int TIME_SLICE_QUANTA['' @ str_int (int (length quanta)) @ ''] = {''"
  by (simp add: print_cpp_array_def)

lemma print_cpp_array_closing:
  "print_cpp_array quanta ! ((length quanta + 7) div 8 + 1) = ''};''"
  by (simp add: print_cpp_array_def length_print_rows nth_append)

lemma print_cpp_array_row:
  assumes "k < (length quanta + 7) div 8"
  shows "print_cpp_array quanta ! (k + 1) =
     ''    '' @ join '', '' (map str_int (take 8 (drop (8 * k) quanta)))
       @ (if k + 1 < (length quanta + 7) div 8 then '','' else [])"
proof -
  from assms have k: "k < length (print_rows 0 quanta)"
    by (simp add: length_print_rows)
  then have "print_cpp_array quanta ! (k + 1) = print_rows 0 quanta ! k"
    by (simp add: print_cpp_array_def nth_append)
  also from k have "\<dots> = ''    '' @ join '', '' (map str_int (take 8 (drop (8 * k) quanta)))
       @ (if 8 * k + 8 < length quanta then '','' else [])"
    using nth_print_rows [of k 0 quanta] by simp
  finally show ?thesis
    by (simp only: row_index)
qed

lemma row_last_char:
  assumes "row \<noteq> []"
  shows "(last (''    '' @ join '', '' (map str_int row) @ (if more then '','' else [])) = CHR '','')
           = more"
proof (cases more)
  case True
  then show ?thesis by simp
next
  case False
  from assms have "map str_int row \<noteq> []" and "last (map str_int row) \<noteq> []"
    by (simp_all add: last_map str_int_nonempty)
  then have "join '', '' (map str_int row) \<noteq> []"
    and "last (join '', '' (map str_int row)) = last (str_int (last row))"
    using assms by (simp_all add: join_nonempty last_join last_map)
  with False show ?thesis
    by (simp add: last_str_int_not_comma)
qed

lemma numbers_in_header:
  "numbers_in (''constexpr int TIME_SLICE_QUANTA['' @ str_int (int n) @ ''] = {'') = [int n]"
proof -
  have "scan_numbers [] (''constexpr int TIME_SLICE_QUANTA['' @ str_int (int n) @ ''] = {'') =
      scan_numbers [] (str_int (int n) @ ''] = {'')"
    by (simp add: is_number_char_def)
  also have "\<dots> = scan_numbers (str_int (int n)) ''] = {''"
    using scan_numbers_token [of "str_int (int n)" "[]" "''] = {''"] str_int_number_chars
    by simp
  also have "\<dots> = [str_int (int n)]"
    by (simp add: is_number_char_def str_int_nonempty)
  finally show ?thesis
    by (simp add: numbers_in_def int_of_str_str_int)
qed

lemma print_cpp_array_eight:
  assumes "length quanta = 8"
  shows "print_cpp_array quanta =
     [''constexpr int TIME_SLICE_QUANTA['' @ str_int (int (length quanta)) @ ''] = {'',
      ''    '' @ join '', '' (map str_int quanta), ''};'']"
proof -
  from assms have "print_rows 0 quanta = [''    '' @ join '', '' (map str_int quanta)]"
    by (simp add: print_rows_step print_rows_done)
  then show ?thesis
    by (simp add: print_cpp_array_def)
qed

lemma print_cpp_array_nine:
  assumes "length quanta = 9"
  shows "print_cpp_array quanta =
     [''constexpr int TIME_SLICE_QUANTA['' @ str_int (int (length quanta)) @ ''] = {'',
      ''    '' @ join '', '' (map str_int (take 8 quanta)) @ '','',
      ''    '' @ str_int (quanta ! 8), ''};'']"
proof -
  from assms have "quanta ! 8 # drop (Suc 8) quanta = drop 8 quanta"
    by (intro Cons_nth_drop_Suc) simp
  with assms have "drop 8 quanta = [quanta ! 8]"
    by simp
  with assms have "print_rows 0 quanta =
      [''    '' @ join '', '' (map str_int (take 8 quanta)) @ '','',
       ''    '' @ str_int (quanta ! 8)]"
    using print_rows_step [of 0 quanta] print_rows_step [of 8 quanta] print_rows_done [of 16 quanta]
    by simp
  then show ?thesis
    by (simp add: print_cpp_array_def)
qed


text \<open>
  C7. For a non-empty list of \<open>n\<close> entries the output has the declaration line, then
  \<open>\<lceil>n / 8\<rceil>\<close> rows, then the closing line. The size written in the declaration is
  \<open>n\<close>. Row \<open>k\<close> shows entries \<open>8 k\<close> onwards, eight of them in every row but the
  last, which has between one and eight; a row ends in a comma exactly when it is not
  the last. Eight entries give one row without a comma at its end; nine give a row of
  eight ending in a comma and a row holding the ninth.
\<close>

theorem print_cpp_array_layout:
  "quanta \<noteq> [] \<Longrightarrow>
   (let n = length quanta; rows = (n + 7) div 8; out = print_cpp_array quanta in
      length out = rows + 2
    \<and> out ! 0 = ''constexpr int TIME_SLICE_QUANTA['' @ str_int (int n) @ ''] = {''
    \<and> numbers_in (out ! 0) = [int n]
    \<and> out ! (rows + 1) = ''};''
    \<and> (\<forall>k<rows.
         out ! (k + 1) =
           ''    '' @ join '', '' (map str_int (take 8 (drop (8 * k) quanta)))
             @ (if k + 1 < rows then '','' else [])
       \<and> 1 \<le> length (take 8 (drop (8 * k) quanta))
       \<and> length (take 8 (drop (8 * k) quanta)) \<le> 8
       \<and> (k + 1 < rows \<longrightarrow> length (take 8 (drop (8 * k) quanta)) = 8)
       \<and> (last (out ! (k + 1)) = CHR '','') = (k + 1 < rows))
    \<and> (n = 8 \<longrightarrow>
         out = [out ! 0, ''    '' @ join '', '' (map str_int quanta), ''};''])
    \<and> (n = 9 \<longrightarrow>
         out = [out ! 0, ''    '' @ join '', '' (map str_int (take 8 quanta)) @ '','',
                ''    '' @ str_int (quanta ! 8), ''};'']))"
proof -
  assume "quanta \<noteq> []"
  define n where "n = length quanta"
  define rows where "rows = (n + 7) div 8"
  define out where "out = print_cpp_array quanta"
  have len: "length out = rows + 2"
    by (simp add: out_def rows_def n_def print_cpp_array_length)
  have header: "out ! 0 = ''constexpr int TIME_SLICE_QUANTA['' @ str_int (int n) @ ''] = {''"
    by (simp add: out_def n_def print_cpp_array_header)
  have size: "numbers_in (out ! 0) = [int n]"
    by (simp only: header numbers_in_header)
  have closing: "out ! (rows + 1) = ''};''"
    unfolding out_def rows_def n_def by (rule print_cpp_array_closing)
  have row: "out ! (k + 1) =
           ''    '' @ join '', '' (map str_int (take 8 (drop (8 * k) quanta)))
             @ (if k + 1 < rows then '','' else [])
       \<and> 1 \<le> length (take 8 (drop (8 * k) quanta))
       \<and> length (take 8 (drop (8 * k) quanta)) \<le> 8
       \<and> (k + 1 < rows \<longrightarrow> length (take 8 (drop (8 * k) quanta)) = 8)
       \<and> (last (out ! (k + 1)) = CHR '','') = (k + 1 < rows)" if "k < rows" for k
  proof -
    from that have line: "out ! (k + 1) =
           ''    '' @ join '', '' (map str_int (take 8 (drop (8 * k) quanta)))
             @ (if k + 1 < rows then '','' else [])"
      unfolding out_def rows_def n_def by (rule print_cpp_array_row)
    from that have inside: "8 * k < length quanta"
      by (simp add: rows_def n_def row_exists)
    then have nonempty: "take 8 (drop (8 * k) quanta) \<noteq> []"
      by simp
    from inside have lower: "1 \<le> length (take 8 (drop (8 * k) quanta))"
      by simp
    have upper: "length (take 8 (drop (8 * k) quanta)) \<le> 8"
      by simp
    have full: "k + 1 < rows \<longrightarrow> length (take 8 (drop (8 * k) quanta)) = 8"
      by (simp add: rows_def n_def row_index)
    have "(last (out ! (k + 1)) = CHR '','') = (k + 1 < rows)"
      unfolding line using nonempty by (rule row_last_char)
    with line lower upper full show ?thesis
      by blast
  qed
  have eight: "n = 8 \<longrightarrow>
         out = [out ! 0, ''    '' @ join '', '' (map str_int quanta), ''};'']"
    unfolding header by (simp add: out_def n_def print_cpp_array_eight)
  have nine: "n = 9 \<longrightarrow>
         out = [out ! 0, ''    '' @ join '', '' (map str_int (take 8 quanta)) @ '','',
                ''    '' @ str_int (quanta ! 8), ''};'']"
    unfolding header by (simp add: out_def n_def print_cpp_array_nine)
  from len header size closing row eight nine
  show ?thesis
    unfolding Let_def n_def [symmetric] rows_def [symmetric] out_def [symmetric]
    by blast
qed

theorem print_cpp_array_layout_witness:
  "[10, 12, 13, 15, 17, 20, 23, 26, 30] \<noteq> ([]::int list)
   \<and> print_cpp_array [10, 12, 13, 15, 17, 20, 23, 26, 30] =
       [''constexpr int TIME_SLICE_QUANTA[9] = {'',
        ''    10, 12, 13, 15, 17, 20, 23, 26,'',
        ''    30'',
        ''};'']"
proof -
  let ?quanta = "[10, 12, 13, 15, 17, 20, 23, 26, 30] :: int list"
  let ?out = "print_cpp_array ?quanta"
  have nonempty: "?quanta \<noteq> []"
    by simp
  note inst = print_cpp_array_layout [OF nonempty, unfolded Let_def]
  from inst have header:
    "?out ! 0 = ''constexpr int TIME_SLICE_QUANTA['' @ str_int (int (length ?quanta)) @ ''] = {''"
    by (rule conjunct1 [OF conjunct2])
  from inst have "length ?quanta = 9 \<longrightarrow>
      ?out = [?out ! 0, ''    '' @ join '', '' (map str_int (take 8 ?quanta)) @ '','',
              ''    '' @ str_int (?quanta ! 8), ''};'']"
    by blast
  then have "?out = [?out ! 0, ''    '' @ join '', '' (map str_int (take 8 ?quanta)) @ '','',
              ''    '' @ str_int (?quanta ! 8), ''};'']"
    by simp
  also have "\<dots> = [''constexpr int TIME_SLICE_QUANTA[9] = {'',
        ''    10, 12, 13, 15, 17, 20, 23, 26,'', ''    30'', ''};'']"
    unfolding header by (simp add: str_int_def str_nat.simps digit_char_def)
  finally show ?thesis
    using nonempty by simp
qed

text \<open>
  C8. The numbers shown on the lines between the declaration line and the closing line,
  read in order, are exactly the entries of the list: none changed, moved or lost. The
  declaration line always comes first and the closing line last. For the empty list the
  output is the declaration with size 0 followed at once by the closing line.
\<close>

theorem print_cpp_array_preserves_values:
  "concat (map numbers_in (butlast (tl (print_cpp_array quanta)))) = quanta
   \<and> hd (print_cpp_array quanta) =
       ''constexpr int TIME_SLICE_QUANTA['' @ str_int (int (length quanta)) @ ''] = {''
   \<and> last (print_cpp_array quanta) = ''};''
   \<and> print_cpp_array [] = [''constexpr int TIME_SLICE_QUANTA[0] = {'', ''};'']"
proof -
  have "butlast (tl (print_cpp_array quanta)) = print_rows 0 quanta"
    by (simp add: print_cpp_array_def)
  then have "concat (map numbers_in (butlast (tl (print_cpp_array quanta)))) = quanta"
    by (simp add: numbers_in_print_rows)
  moreover have "print_cpp_array [] = [''constexpr int TIME_SLICE_QUANTA[0] = {'', ''};'']"
    by (simp add: print_cpp_array_def print_rows_done str_int_def str_nat.simps digit_char_def)
  moreover have "hd (print_cpp_array quanta) =
       ''constexpr int TIME_SLICE_QUANTA['' @ str_int (int (length quanta)) @ ''] = {''"
    and "last (print_cpp_array quanta) = ''};''"
    by (simp_all add: print_cpp_array_def)
  ultimately show ?thesis
    by simp
qed

end
